theory Spec2Isabelle
  imports Complex_Main "HOL-Library.Log_Nat"
begin

section \<open>Beat Drift Monitor: the core of \<open>core/beat_tracker.js\<close>\<close>

text \<open>
  A shallow embedding of the tracker that \<open>createBeatTracker\<close> builds, of the trace
  buffer of \<open>createTraceBuffer\<close>, and of the operations the tracker exports.

  Numbers. A JavaScript number is an IEEE double. The embedding takes the finite
  numbers as real numbers (\<^typ>\<open>real\<close>): it keeps every comparison, every rounding
  to an integer (\<open>Math.round\<close>, \<open>Math.floor\<close>, \<open>Math.ceil\<close>) and every branch of the
  source. The arithmetic of the tracker's state is exact: the rounding error of
  double arithmetic is left out there. The fit test of the period estimator is the
  exception: its 15 percent bound is reached by whole-millisecond intervals (460
  against 400), where the rounding of the quotient decides, so its three double
  operations are rounded as IEEE 754 rounds them (\<open>double\<close> below). Counters and
  lengths are natural numbers. \<open>Infinity\<close> and \<open>NaN\<close> are not values of the embedding;
  they can only come from a division by zero, and each division of the source is
  discussed where it is modelled.

  State. The closure variables of \<open>createBeatTracker\<close> are the fields of the record
  \<open>tracker\<close>; every operation takes the tracker and returns the updated one. The
  merged constant table \<open>C\<close> is a parameter of every operation. What the tracker hands
  to its two sinks is kept in the record too: \<open>updates\<close> is the sequence of objects
  passed to \<open>onUpdate\<close>, \<open>trace\<close> is the trace buffer (\<open>None\<close> when the tracker was
  built without one).
\<close>

subsection \<open>Constants and state enum\<close>

record constants =
  CAL_BEATS :: nat
  ADAPT_FAST :: real
  ADAPT_SLOW :: real
  GRID_TOLERANCE :: real
  SILENCE_TIMEOUT_MS :: real
  PERIOD_HISTORY :: nat
  MIN_PERIOD_MS :: real
  MAX_PERIOD_MS :: real

definition CONSTANTS :: constants where
  "CONSTANTS = \<lparr> CAL_BEATS = 8, ADAPT_FAST = 8 / 100, ADAPT_SLOW = 5 / 1000,
     GRID_TOLERANCE = 35 / 100, SILENCE_TIMEOUT_MS = 4000, PERIOD_HISTORY = 12,
     MIN_PERIOD_MS = 200, MAX_PERIOD_MS = 1500 \<rparr>"

datatype State = IDLE | CALIBRATING | TRACKING | WAITING

subsection \<open>Debug trace\<close>

text \<open>
  The \<open>event\<close> tags that \<open>addOnset\<close> writes. A trace entry of the embedding holds the
  fields that every entry of the source has (\<open>timestamp\<close>, \<open>state\<close>, \<open>event\<close>,
  \<open>onsetCount\<close>); the other diagnostic fields of the source's entries are computed from
  the tracker at that point, are read by no operation, and are left out. The buffer
  stores each entry with its \<open>_index\<close>.
\<close>

datatype event =
  resume_from_waiting | calibrating | calibration_complete
  | on_grid | off_grid | double_tempo_correction

record trace_entry =
  tr_timestamp :: real
  tr_state :: State
  tr_event :: event
  tr_onsetCount :: nat

record trace_buffer =
  maxSize :: nat
  entries :: "(trace_entry \<times> nat) list"

definition createTraceBuffer :: "nat \<Rightarrow> trace_buffer" where
  "createTraceBuffer n = \<lparr> maxSize = n, entries = [] \<rparr>"

definition add :: "trace_entry \<Rightarrow> trace_buffer \<Rightarrow> trace_buffer" where
  "add entry b =
     (let pushed = entries b @ [(entry, length (entries b))]
      in b\<lparr> entries := (if length pushed > maxSize b then tl pushed else pushed) \<rparr>)"

definition getAll :: "trace_buffer \<Rightarrow> (trace_entry \<times> nat) list" where
  "getAll b = entries b"

definition clear :: "trace_buffer \<Rightarrow> trace_buffer" where
  "clear b = b\<lparr> entries := [] \<rparr>"

subsection \<open>Tracker state and the Update object\<close>

record Update =
  u_state :: State
  currentBpm :: "real option"
  targetBpm :: "real option"
  drift :: real
  u_confidence :: int
  beatCount :: nat
  calibrationNeeded :: nat
  u_gridHits :: nat
  u_gridMisses :: nat
  u_period :: real
  u_targetPeriod :: real

text \<open>
  \<open>silenceCheckInterval\<close> is \<open>True\<close> when an interval timer is installed (the source
  holds the timer's handle, or \<open>null\<close>).
\<close>

record tracker =
  period :: real
  phase :: real
  targetPeriod :: real
  confidence :: real
  calOnsets :: "real list"
  state :: State
  onsetCount :: nat
  gridHits :: nat
  gridMisses :: nat
  recentPeriods :: "real list"
  lastOnsetTime :: real
  silenceCheckInterval :: bool
  trace :: "trace_buffer option"
  updates :: "Update list"

definition createBeatTracker :: "trace_buffer option \<Rightarrow> tracker" where
  "createBeatTracker tr =
     \<lparr> period = 0, phase = 0, targetPeriod = 0, confidence = 0, calOnsets = [],
       state = IDLE, onsetCount = 0, gridHits = 0, gridMisses = 0, recentPeriods = [],
       lastOnsetTime = 0, silenceCheckInterval = False, trace = tr, updates = [] \<rparr>"

subsection \<open>Internal helpers\<close>

text \<open>
  \<open>Math.round\<close> returns the nearest integer, a tie going to the larger one.
  \<open>round1 v\<close> is the source's \<open>Math.round(v * 10) / 10\<close>.
\<close>

definition Math_round :: "real \<Rightarrow> int" where
  "Math_round x = \<lfloor>x + 1 / 2\<rfloor>"

definition round1 :: "real \<Rightarrow> real" where
  "round1 v = of_int (Math_round (v * 10)) / 10"

text \<open>
  JavaScript's truth test on \<open>number | null\<close>: \<open>null\<close> and \<open>0\<close> are false.
\<close>

fun truthy :: "real option \<Rightarrow> bool" where
  "truthy None = False"
| "truthy (Some v) = (v \<noteq> 0)"

text \<open>
  The object \<open>emitUpdate\<close> builds. Both divisions are guarded by the source itself
  (\<open>period > 0\<close>, \<open>targetPeriod > 0\<close>).
\<close>

definition emitUpdate_data :: "constants \<Rightarrow> tracker \<Rightarrow> Update" where
  "emitUpdate_data C s =
     (let currentBpm = (if period s > 0 then Some (60000 / period s) else None);
          targetBpm = (if targetPeriod s > 0 then Some (60000 / targetPeriod s) else None);
          drift = (if truthy currentBpm \<and> truthy targetBpm
                   then (case (currentBpm, targetBpm) of
                           (Some c, Some t) \<Rightarrow> c - t | _ \<Rightarrow> 0)
                   else 0)
      in \<lparr> u_state = state s,
           currentBpm = (if truthy currentBpm then map_option round1 currentBpm else None),
           targetBpm = (if truthy targetBpm then map_option round1 targetBpm else None),
           drift = round1 drift,
           u_confidence = Math_round (confidence s * 100),
           beatCount = length (calOnsets s),
           calibrationNeeded = CAL_BEATS C,
           u_gridHits = gridHits s,
           u_gridMisses = gridMisses s,
           u_period = period s,
           u_targetPeriod = targetPeriod s \<rparr>)"

definition emitUpdate :: "constants \<Rightarrow> tracker \<Rightarrow> tracker" where
  "emitUpdate C s = s\<lparr> updates := updates s @ [emitUpdate_data C s] \<rparr>"

text \<open>
  \<open>traceOnset\<close>: the entry is built from the tracker as it is at the call, as the
  object literals at the source's four call sites are.
\<close>

definition traceOnset :: "event \<Rightarrow> real \<Rightarrow> tracker \<Rightarrow> tracker" where
  "traceOnset ev timestamp s =
     (case trace s of
        None \<Rightarrow> s
      | Some b \<Rightarrow>
          s\<lparr> trace := Some (add \<lparr> tr_timestamp = timestamp, tr_state = state s,
                                    tr_event = ev, tr_onsetCount = onsetCount s \<rparr> b) \<rparr>)"

subsection \<open>Dominant period estimator\<close>

text \<open>
  Double arithmetic. \<open>double x\<close> is the double nearest to \<open>x\<close>, a tie going to the even
  significand: \<open>exponent x\<close> is the binary exponent \<open>e\<close> of \<open>x\<close> (\<open>2\<^sup>e \<le> |x| < 2\<^sup>e\<^sup>+\<^sup>1\<close>),
  and \<open>x\<close> is rounded to a multiple of \<open>2\<^sup>e\<^sup>-\<^sup>5\<^sup>2\<close>, which leaves 53 significant bits. The
  exponent is not bounded here (no overflow to \<open>Infinity\<close>, no subnormal numbers).
\<close>

definition roundEven :: "real \<Rightarrow> int" where
  "roundEven y =
     (let f = \<lfloor>y\<rfloor>; d = y - of_int f
      in if d < 1 / 2 then f else if d > 1 / 2 then f + 1
         else if even f then f else f + 1)"

definition exponent :: "real \<Rightarrow> int" where
  "exponent x =
     (if \<bar>x\<bar> \<ge> 1 then bitlen \<lfloor>\<bar>x\<bar>\<rfloor> - 1 else - bitlen (\<lceil>1 / \<bar>x\<bar>\<rceil> - 1))"

definition double :: "real \<Rightarrow> real" where
  "double x =
     (if x = 0 then 0
      else let ulp = 2 powi (exponent x - 52)
           in of_int (roundEven (x / ulp)) * ulp)"

text \<open>
  \<open>fitsMultiple iv m\<close> is the test in the scoring loop of \<open>findDominantPeriod\<close>, in
  double arithmetic: the quotient, the difference and the literal \<open>0.15\<close> are doubles
  (\<open>Math.round\<close> and \<open>Math.abs\<close> are exact on doubles). The divisor \<open>m\<close> is an element
  of \<open>valid\<close>, so it is above \<open>MIN_PERIOD_MS\<close>; it can be zero only under a negative
  \<open>MIN_PERIOD_MS\<close>, where the source's ratio is infinite or \<open>NaN\<close> and the test is
  false, as it is here (the quotient is \<open>0\<close>, which rounds to \<open>0\<close>).
\<close>

definition fitsMultiple :: "real \<Rightarrow> real \<Rightarrow> bool" where
  "fitsMultiple iv candidateMedian =
     (let ratio = double (iv / candidateMedian);
          nearestInt = Math_round ratio;
          fractionalError = \<bar>double (ratio - of_int nearestInt)\<bar>
      in fractionalError < double (15 / 100) \<and> nearestInt \<ge> 1 \<and> nearestInt \<le> 4)"

definition findDominantPeriod :: "constants \<Rightarrow> real list \<Rightarrow> real" where
  "findDominantPeriod C intervals =
     (if length intervals = 0 then 0
      else
        let sorted = sort intervals;
            valid = filter (\<lambda>i. i > MIN_PERIOD_MS C \<and> i < 2000) sorted
        in if length valid = 0 then 0
           else
             let candidates =
                   take (max 1 (nat \<lceil>of_nat (length valid) * (6 / 10 :: real)\<rceil>)) valid;
                 candidateMedian = candidates ! (length candidates div 2);
                 score = length (filter (\<lambda>iv. fitsMultiple iv candidateMedian) valid)
             in if of_nat score \<ge> of_nat (length valid) * (5 / 10 :: real)
                then candidateMedian
                else valid ! (length valid div 2))"

subsection \<open>Public API\<close>

definition reset :: "constants \<Rightarrow> tracker \<Rightarrow> tracker" where
  "reset C s =
     emitUpdate C
       (s\<lparr> period := 0, phase := 0, targetPeriod := 0, confidence := 0, calOnsets := [],
           recentPeriods := [], onsetCount := 0, gridHits := 0, gridMisses := 0,
           state := CALIBRATING \<rparr>)"

definition enterWaiting :: "constants \<Rightarrow> tracker \<Rightarrow> tracker" where
  "enterWaiting C s = emitUpdate C (s\<lparr> state := WAITING, confidence := 0 \<rparr>)"

text \<open>
  \<open>startSilenceWatch\<close> installs the interval timer; \<open>silenceCheck C now\<close> is the body
  of its callback, run at a tick at which \<open>getTime()\<close> returns \<open>now\<close>.
\<close>

definition startSilenceWatch :: "tracker \<Rightarrow> tracker" where
  "startSilenceWatch s = s\<lparr> silenceCheckInterval := True \<rparr>"

definition stopSilenceWatch :: "tracker \<Rightarrow> tracker" where
  "stopSilenceWatch s =
     (if silenceCheckInterval s then s\<lparr> silenceCheckInterval := False \<rparr> else s)"

definition silenceCheck :: "constants \<Rightarrow> real \<Rightarrow> tracker \<Rightarrow> tracker" where
  "silenceCheck C now s =
     (if state s = IDLE then s
      else
        let gap = now - lastOnsetTime s
        in if lastOnsetTime s > 0 \<and> gap > SILENCE_TIMEOUT_MS C
           then (if state s = TRACKING \<or> state s = CALIBRATING then enterWaiting C s else s)
           else s)"

definition destroy :: "tracker \<Rightarrow> tracker" where
  "destroy s = stopSilenceWatch s"

subsection \<open>\<open>addOnset\<close>\<close>

text \<open>
  The source's \<open>addOnset\<close> is one function with three sections, each ending in a
  \<open>return\<close>: the resume from WAITING, the calibration phase and the tracking phase.
  Each section is a definition here and \<open>addOnset\<close> dispatches as the source does.
\<close>

definition resumeFromWaiting :: "constants \<Rightarrow> real \<Rightarrow> tracker \<Rightarrow> tracker" where
  "resumeFromWaiting C timestamp s =
     emitUpdate C
       (traceOnset resume_from_waiting timestamp
          (s\<lparr> calOnsets := [timestamp], state := CALIBRATING \<rparr>))"

text \<open>The loop that turns \<open>calOnsets\<close> into consecutive differences.\<close>

fun calIntervals :: "real list \<Rightarrow> real list" where
  "calIntervals (a # b # rest) = (b - a) # calIntervals (b # rest)"
| "calIntervals _ = []"

definition calibrationPhase :: "constants \<Rightarrow> real \<Rightarrow> tracker \<Rightarrow> tracker" where
  "calibrationPhase C timestamp s =
     (let s1 = s\<lparr> calOnsets := calOnsets s @ [timestamp] \<rparr>
      in if length (calOnsets s1) < CAL_BEATS C + 1
         then emitUpdate C (traceOnset calibrating timestamp s1)
         else
           let basePeriod = findDominantPeriod C (calIntervals (calOnsets s1))
           in if basePeriod > 0
              then emitUpdate C
                     (traceOnset calibration_complete timestamp
                        (s1\<lparr> period := basePeriod, targetPeriod := basePeriod,
                             phase := timestamp, confidence := 5 / 10,
                             recentPeriods := [basePeriod], state := TRACKING \<rparr>))
              else emitUpdate C s1)"

text \<open>
  Grid position of an onset. \<open>period s\<close> is not zero where the tracking phase runs
  (the source returns before it when \<open>period === 0\<close>).
\<close>

definition timeSincePhase :: "real \<Rightarrow> tracker \<Rightarrow> real" where
  "timeSincePhase timestamp s = timestamp - phase s"

definition beatFraction :: "real \<Rightarrow> tracker \<Rightarrow> real" where
  "beatFraction timestamp s = timeSincePhase timestamp s / period s"

definition nearestBeat :: "real \<Rightarrow> tracker \<Rightarrow> int" where
  "nearestBeat timestamp s = Math_round (beatFraction timestamp s)"

definition offset :: "real \<Rightarrow> tracker \<Rightarrow> real" where
  "offset timestamp s = beatFraction timestamp s - of_int (nearestBeat timestamp s)"

definition absOffset :: "real \<Rightarrow> tracker \<Rightarrow> real" where
  "absOffset timestamp s = \<bar>offset timestamp s\<bar>"

text \<open>
  The on-grid / off-grid branch. \<open>impliedPeriod\<close> divides by \<open>nearestBeat\<close>, which may be
  zero: the source's quotient is then infinite or \<open>NaN\<close>, and its validity test is false
  because it also asks for \<open>nearestBeat > 0\<close>; so is the test here.
\<close>

definition gridHit :: "constants \<Rightarrow> real \<Rightarrow> tracker \<Rightarrow> tracker" where
  "gridHit C timestamp s =
     (if absOffset timestamp s < GRID_TOLERANCE C
      then
        let s1 = s\<lparr> gridHits := gridHits s + 1 \<rparr>;
            impliedPeriod = timeSincePhase timestamp s / of_int (nearestBeat timestamp s)
        in if impliedPeriod > MIN_PERIOD_MS C \<and> impliedPeriod < MAX_PERIOD_MS C
              \<and> nearestBeat timestamp s > 0
           then
             let period' = period s + ADAPT_FAST C * (impliedPeriod - period s);
                 targetPeriod' = targetPeriod s + ADAPT_SLOW C * (period' - targetPeriod s);
                 phase' = timestamp - of_int (nearestBeat timestamp s) * period'
                          + offset timestamp s * period' * (3 / 10);
                 pushed = recentPeriods s @ [impliedPeriod];
                 recentPeriods' =
                   (if length pushed > PERIOD_HISTORY C then tl pushed else pushed)
             in s1\<lparr> period := period', targetPeriod := targetPeriod', phase := phase',
                     recentPeriods := recentPeriods',
                     confidence := min 1 (confidence s + 5 / 100) \<rparr>
           else s1
      else s\<lparr> gridMisses := gridMisses s + 1,
              confidence := max 0 (confidence s - 2 / 100) \<rparr>)"

definition gridEvent :: "constants \<Rightarrow> real \<Rightarrow> tracker \<Rightarrow> event" where
  "gridEvent C timestamp s =
     (if absOffset timestamp s < GRID_TOLERANCE C then on_grid else off_grid)"

text \<open>
  Double-tempo detection. \<open>a\<close> is the onset's \<open>absOffset\<close>, computed before the grid
  branch ran; \<open>s\<close> is the tracker after the grid branch.
\<close>

definition doubleTempoDetected :: "real \<Rightarrow> tracker \<Rightarrow> bool" where
  "doubleTempoDetected a s =
     (a > 35 / 100 \<and> a < 65 / 100
      \<and> of_nat (gridMisses s) > of_nat (gridHits s) * (5 / 10 :: real)
      \<and> gridMisses s > 6)"

definition doubleTempoApplies :: "constants \<Rightarrow> real \<Rightarrow> tracker \<Rightarrow> bool" where
  "doubleTempoApplies C a s = (doubleTempoDetected a s \<and> period s / 2 > MIN_PERIOD_MS C)"

definition doubleTempoCorrection :: "real \<Rightarrow> tracker \<Rightarrow> tracker" where
  "doubleTempoCorrection timestamp s =
     (let halfPeriod = period s / 2
      in s\<lparr> period := halfPeriod, targetPeriod := halfPeriod,
             recentPeriods := map (\<lambda>p. p / 2) (recentPeriods s),
             phase := timestamp, gridHits := 0, gridMisses := 0,
             confidence := max (3 / 10) (confidence s - 2 / 10) \<rparr>)"

definition trackingPhase :: "constants \<Rightarrow> real \<Rightarrow> tracker \<Rightarrow> tracker" where
  "trackingPhase C timestamp s =
     (let a = absOffset timestamp s;
          event = gridEvent C timestamp s;
          s1 = gridHit C timestamp s;
          (event', s2) =
            (if doubleTempoApplies C a s1
             then (double_tempo_correction, doubleTempoCorrection timestamp s1)
             else (event, s1))
      in emitUpdate C (traceOnset event' timestamp s2))"

definition addOnset :: "constants \<Rightarrow> real \<Rightarrow> tracker \<Rightarrow> tracker" where
  "addOnset C timestamp s0 =
     (let s = s0\<lparr> lastOnsetTime := timestamp, onsetCount := onsetCount s0 + 1 \<rparr>
      in if state s = WAITING then resumeFromWaiting C timestamp s
         else if state s = CALIBRATING then calibrationPhase C timestamp s
         else if state s \<noteq> TRACKING \<or> period s = 0 then s
         else trackingPhase C timestamp s)"

subsection \<open>\<open>setTarget\<close>\<close>

text \<open>
  \<open>now\<close> is what \<open>performance.now()\<close> returns at the call. The source divides by \<open>bpm\<close>
  unguarded. At \<open>bpm = 0\<close> the call returns with \<open>period\<close> and \<open>targetPeriod\<close> infinite: a
  tracker the finite numbers of this embedding cannot hold, so the model has no
  result there (\<open>None\<close>). At every other \<open>bpm\<close>, negative ones included, the result is
  \<open>Some\<close> of the tracker the source leaves.
\<close>

definition setTarget :: "constants \<Rightarrow> real \<Rightarrow> real \<Rightarrow> tracker \<Rightarrow> tracker option" where
  "setTarget C bpm now s =
     (if bpm = 0 then None
      else
        let targetPeriod' = 60000 / bpm
        in Some (emitUpdate C
                   (s\<lparr> targetPeriod := targetPeriod', period := targetPeriod', phase := now,
                       confidence := 7 / 10, state := TRACKING,
                       calOnsets := replicate (CAL_BEATS C + 1) 0 \<rparr>)))"

subsection \<open>Sequences of calls\<close>

text \<open>
  One call on the tracker's interface, or one tick of the silence timer (which runs
  the callback only while a timer is installed).
\<close>

datatype call =
  Reset
  | AddOnset real
  | SetTarget real real
  | StartSilenceWatch
  | StopSilenceWatch
  | SilenceTick real
  | Destroy

fun step :: "constants \<Rightarrow> call \<Rightarrow> tracker \<Rightarrow> tracker option" where
  "step C Reset s = Some (reset C s)"
| "step C (AddOnset timestamp) s = Some (addOnset C timestamp s)"
| "step C (SetTarget bpm now) s = setTarget C bpm now s"
| "step C StartSilenceWatch s = Some (startSilenceWatch s)"
| "step C StopSilenceWatch s = Some (stopSilenceWatch s)"
| "step C (SilenceTick now) s =
     Some (if silenceCheckInterval s then silenceCheck C now s else s)"
| "step C Destroy s = Some (destroy s)"

fun run :: "constants \<Rightarrow> call list \<Rightarrow> tracker \<Rightarrow> tracker option" where
  "run C [] s = Some s"
| "run C (c # cs) s = (case step C c s of None \<Rightarrow> None | Some s' \<Rightarrow> run C cs s')"

text \<open>The calls the claims range over: \<open>setTarget\<close> is given a positive \<open>bpm\<close>.\<close>

fun positiveTarget :: "call \<Rightarrow> bool" where
  "positiveTarget (SetTarget bpm now) = (bpm > 0)"
| "positiveTarget _ = True"

text \<open>
  The loop of \<open>runScenario\<close>: \<open>tracker.reset()\<close> on a new tracker, then every onset in
  order.
\<close>

definition feed :: "constants \<Rightarrow> real list \<Rightarrow> tracker \<Rightarrow> tracker" where
  "feed C onsets s = fold (addOnset C) onsets s"

definition runScenario :: "constants \<Rightarrow> real list \<Rightarrow> tracker" where
  "runScenario C onsets =
     feed C onsets (reset C (createBeatTracker (Some (createTraceBuffer 10000))))"

subsection \<open>The estimator as the specification words it\<close>

text \<open>
  The reference algorithm of the specification, with the median left as a parameter:
  discard the intervals outside \<open>(MIN_PERIOD_MS, 2000)\<close>; return \<open>0\<close> if none remain;
  sort ascending and take the lower 60 percent (rounded up, at least one element) as
  candidates; the candidates' median is the trial base period; an interval fits when
  its ratio to the trial base is within \<open>0.15\<close> of an integer in \<open>[1,4]\<close>; return the
  trial base if at least half of the valid intervals fit, the median of all valid
  intervals otherwise.

  \<open>meanMedian\<close> is the median of an ascending list as statistics defines it (the mean
  of the two middle elements when the count is even); \<open>upperMedian\<close> is the element at
  index \<open>\<lfloor>n / 2\<rfloor>\<close> (the upper of the two middle elements when the count is even).
\<close>

definition meanMedian :: "real list \<Rightarrow> real" where
  "meanMedian xs =
     (if even (length xs)
      then (xs ! (length xs div 2 - 1) + xs ! (length xs div 2)) / 2
      else xs ! (length xs div 2))"

definition upperMedian :: "real list \<Rightarrow> real" where
  "upperMedian xs = xs ! (length xs div 2)"

definition nearMultiple :: "real \<Rightarrow> real \<Rightarrow> bool" where
  "nearMultiple iv base = list_ex (\<lambda>k. \<bar>iv / base - of_int k\<bar> < 15 / 100) [1, 2, 3, 4]"

definition referenceEstimator :: "(real list \<Rightarrow> real) \<Rightarrow> constants \<Rightarrow> real list \<Rightarrow> real" where
  "referenceEstimator median C intervals =
     (let valid = filter (\<lambda>i. MIN_PERIOD_MS C < i \<and> i < 2000) intervals
      in if valid = [] then 0
         else
           let ascending = sort valid;
               candidates =
                 take (max 1 (nat \<lceil>of_nat (length valid) * (6 / 10 :: real)\<rceil>)) ascending;
               trial = median candidates;
               fitting = filter (\<lambda>iv. nearMultiple iv trial) valid
           in if 2 * length fitting \<ge> length valid then trial else median ascending)"

text \<open>
  The valid intervals and the trial base of the reference algorithm (with the median
  at index \<open>\<lfloor>n / 2\<rfloor>\<close>), and the inputs that stay clear of the 15 percent bound: for
  every valid interval, the distance of its ratio to the trial base from each integer
  in \<open>[1,4]\<close> differs from \<open>0.15\<close> by at least \<open>10\<^sup>-\<^sup>1\<^sup>2\<close>.
\<close>

definition validIntervals :: "constants \<Rightarrow> real list \<Rightarrow> real list" where
  "validIntervals C intervals = filter (\<lambda>i. MIN_PERIOD_MS C < i \<and> i < 2000) intervals"

definition trialBase :: "constants \<Rightarrow> real list \<Rightarrow> real" where
  "trialBase C intervals =
     (let valid = validIntervals C intervals
      in upperMedian
           (take (max 1 (nat \<lceil>of_nat (length valid) * (6 / 10 :: real)\<rceil>)) (sort valid)))"

definition offBoundary :: "real \<Rightarrow> real \<Rightarrow> bool" where
  "offBoundary iv base =
     list_all (\<lambda>k. \<bar>\<bar>iv / base - of_int k\<bar> - 15 / 100\<bar> \<ge> 1 / 10 ^ 12) [1, 2, 3, 4]"

definition clearOfBoundary :: "constants \<Rightarrow> real list \<Rightarrow> bool" where
  "clearOfBoundary C intervals =
     list_all (\<lambda>iv. offBoundary iv (trialBase C intervals)) (validIntervals C intervals)"

subsection \<open>Scenarios\<close>

text \<open>
  Concrete runs used below. \<open>calibrated\<close>: nine onsets 500 ms apart after \<open>reset()\<close>,
  which complete the calibration at 120 BPM. \<open>nudged\<close>: one more onset, 525 ms after
  the last one. \<open>beforeCorrection\<close>: six further onsets, each half a beat off the grid;
  \<open>seventhHalfBeat\<close> is the onset after them, half a beat off the grid as well.
\<close>

definition newTracker :: tracker where
  "newTracker = createBeatTracker (Some (createTraceBuffer 10000))"

definition steadyOnsets :: "real list" where
  "steadyOnsets = [0, 500, 1000, 1500, 2000, 2500, 3000, 3500, 4000]"

definition calibrated :: tracker where
  "calibrated = runScenario CONSTANTS steadyOnsets"

definition nudged :: tracker where
  "nudged = addOnset CONSTANTS 4525 calibrated"

definition halfBeatOnsets :: "real list" where
  "halfBeatOnsets =
     [478353 / 100, 528553 / 100, 578753 / 100, 628953 / 100, 679153 / 100, 729353 / 100]"

definition beforeCorrection :: tracker where
  "beforeCorrection = feed CONSTANTS halfBeatOnsets nudged"

definition seventhHalfBeat :: real where
  "seventhHalfBeat = 779553 / 100"

text \<open>
  \<open>silenced\<close>: the calibrated tracker with the silence timer installed, after a tick
  5000 ms past the last onset. \<open>silentCalls\<close>: a reset, one onset and such a tick.
\<close>

definition silenced :: tracker where
  "silenced = silenceCheck CONSTANTS 9000 (startSilenceWatch calibrated)"

definition silentCalls :: "call list" where
  "silentCalls = [Reset, StartSilenceWatch, AddOnset 100, SilenceTick 5000]"

definition calibrationCalls :: "call list" where
  "calibrationCalls = Reset # map AddOnset steadyOnsets"

text \<open>
  \<open>resumed\<close>: the silenced tracker after the next onset. \<open>unevenIntervals\<close>: the
  intervals between the onsets 0, 300, 610, 1010, 1420, 1920, 2430, 3030, 3640.
\<close>

definition resumed :: tracker where
  "resumed = addOnset CONSTANTS 10000 silenced"

definition unevenIntervals :: "real list" where
  "unevenIntervals = [300, 310, 400, 410, 500, 510, 600, 610]"

text \<open>
  \<open>boundaryIntervals\<close>: the intervals between the onsets 0, 400, 800, 1200, 1660,
  2120, 2580, 3040, 3500.
\<close>

definition boundaryIntervals :: "real list" where
  "boundaryIntervals = [400, 400, 400, 460, 460, 460, 460, 460]"

subsection \<open>Invariants\<close>

definition confidenceBounded :: "tracker \<Rightarrow> bool" where
  "confidenceBounded s =
     (0 \<le> confidence s \<and> confidence s \<le> 1
      \<and> list_all (\<lambda>u. 0 \<le> u_confidence u \<and> u_confidence u \<le> 100) (updates s))"

definition trackingHasPeriod :: "tracker \<Rightarrow> bool" where
  "trackingHasPeriod s = (state s = TRACKING \<longrightarrow> 0 < period s)"

definition bufferKept :: "constants \<Rightarrow> tracker \<Rightarrow> bool" where
  "bufferKept C s =
     ((state s = IDLE \<longrightarrow> calOnsets s = [])
      \<and> (state s = TRACKING \<longrightarrow> CAL_BEATS C + 1 \<le> length (calOnsets s)))"

section \<open>Properties\<close>

subsection \<open>Field lemmas for the two sinks\<close>

lemma emitUpdate_fields [simp]:
  "period (emitUpdate C s) = period s"
  "phase (emitUpdate C s) = phase s"
  "targetPeriod (emitUpdate C s) = targetPeriod s"
  "confidence (emitUpdate C s) = confidence s"
  "calOnsets (emitUpdate C s) = calOnsets s"
  "state (emitUpdate C s) = state s"
  "onsetCount (emitUpdate C s) = onsetCount s"
  "gridHits (emitUpdate C s) = gridHits s"
  "gridMisses (emitUpdate C s) = gridMisses s"
  "recentPeriods (emitUpdate C s) = recentPeriods s"
  "lastOnsetTime (emitUpdate C s) = lastOnsetTime s"
  "silenceCheckInterval (emitUpdate C s) = silenceCheckInterval s"
  "trace (emitUpdate C s) = trace s"
  "updates (emitUpdate C s) = updates s @ [emitUpdate_data C s]"
  by (simp_all add: emitUpdate_def)

lemma traceOnset_fields [simp]:
  "period (traceOnset ev t s) = period s"
  "phase (traceOnset ev t s) = phase s"
  "targetPeriod (traceOnset ev t s) = targetPeriod s"
  "confidence (traceOnset ev t s) = confidence s"
  "calOnsets (traceOnset ev t s) = calOnsets s"
  "state (traceOnset ev t s) = state s"
  "onsetCount (traceOnset ev t s) = onsetCount s"
  "gridHits (traceOnset ev t s) = gridHits s"
  "gridMisses (traceOnset ev t s) = gridMisses s"
  "recentPeriods (traceOnset ev t s) = recentPeriods s"
  "lastOnsetTime (traceOnset ev t s) = lastOnsetTime s"
  "silenceCheckInterval (traceOnset ev t s) = silenceCheckInterval s"
  "updates (traceOnset ev t s) = updates s"
  by (simp_all add: traceOnset_def split: option.split)

lemma Math_round_0 [simp]: "Math_round 0 = 0"
  by (simp add: Math_round_def)

lemma round1_0 [simp]: "round1 0 = 0"
  by (simp add: round1_def)

subsection \<open>Double rounding and the fit test\<close>

text \<open>
  \<open>exponent\<close> is the binary exponent, so \<open>double\<close> keeps 53 significant bits and its
  relative error is at most \<open>2\<^sup>-\<^sup>5\<^sup>3\<close>. Away from the 15 percent bound the fit test in
  double arithmetic decides as the exact test does.
\<close>

lemma roundEven_error: "\<bar>of_int (roundEven y) - y\<bar> \<le> 1 / 2"
  unfolding roundEven_def Let_def by (auto; linarith)

lemma exponent_lower:
  assumes "x \<noteq> 0"
  shows "2 powi exponent x \<le> \<bar>x\<bar>"
proof (cases "\<bar>x\<bar> \<ge> 1")
  case True
  define n where "n = \<lfloor>\<bar>x\<bar>\<rfloor>"
  from True have n: "0 < n" by (simp add: n_def)
  have e: "exponent x = bitlen n - 1" using True by (simp add: exponent_def n_def)
  from n have b: "0 \<le> bitlen n - 1" by (auto simp: bitlen_alt_def)
  from bitlen_bounds [OF n] have "2 ^ nat (bitlen n - 1) \<le> n" ..
  then have "(2::real) ^ nat (bitlen n - 1) \<le> of_int n"
    by (metis of_int_le_iff of_int_numeral of_int_power)
  also have "\<dots> \<le> \<bar>x\<bar>" by (simp add: n_def)
  finally show ?thesis using b by (simp add: e power_int_def)
next
  case False
  define N where "N = \<lceil>1 / \<bar>x\<bar>\<rceil>"
  from False assms have x: "0 < \<bar>x\<bar>" "\<bar>x\<bar> < 1" by simp_all
  then have "1 < 1 / \<bar>x\<bar>" by simp
  then have N: "2 \<le> N" unfolding N_def by (simp add: le_ceiling_iff)
  then have p: "0 < N - 1" by simp
  have e: "exponent x = - bitlen (N - 1)" using False by (simp add: exponent_def N_def)
  from bitlen_bounds [OF p] have "N - 1 < 2 ^ nat (bitlen (N - 1))" ..
  then have "N \<le> 2 ^ nat (bitlen (N - 1))" by simp
  then have "of_int N \<le> (2::real) ^ nat (bitlen (N - 1))"
    by (metis of_int_le_iff of_int_numeral of_int_power)
  moreover have "1 / \<bar>x\<bar> \<le> of_int N" by (simp add: N_def)
  ultimately have "1 / \<bar>x\<bar> \<le> 2 ^ nat (bitlen (N - 1))" by linarith
  with x(1) have "1 / 2 ^ nat (bitlen (N - 1)) \<le> \<bar>x\<bar>"
    by (simp add: field_simps)
  moreover have "(2::real) powi (- bitlen (N - 1)) = 1 / 2 ^ nat (bitlen (N - 1))"
    using bitlen_nonneg [of "N - 1"] by (simp add: power_int_def power_one_over)
  ultimately show ?thesis by (simp add: e)
qed

lemma exponent_upper:
  assumes "x \<noteq> 0"
  shows "\<bar>x\<bar> < 2 powi (exponent x + 1)"
proof (cases "\<bar>x\<bar> \<ge> 1")
  case True
  define n where "n = \<lfloor>\<bar>x\<bar>\<rfloor>"
  from True have n: "0 < n" by (simp add: n_def)
  have e: "exponent x + 1 = bitlen n" using True by (simp add: exponent_def n_def)
  from bitlen_bounds [OF n] have "n < 2 ^ nat (bitlen n)" ..
  then have "n + 1 \<le> 2 ^ nat (bitlen n)" by simp
  then have "of_int (n + 1) \<le> (2::real) ^ nat (bitlen n)"
    by (metis of_int_le_iff of_int_numeral of_int_power)
  moreover have "\<bar>x\<bar> < of_int (n + 1)" unfolding n_def by linarith
  ultimately have "\<bar>x\<bar> < 2 ^ nat (bitlen n)" by linarith
  then show ?thesis using bitlen_nonneg [of n] by (simp add: e power_int_def)
next
  case False
  define N where "N = \<lceil>1 / \<bar>x\<bar>\<rceil>"
  from False assms have x: "0 < \<bar>x\<bar>" "\<bar>x\<bar> < 1" by simp_all
  then have "1 < 1 / \<bar>x\<bar>" by simp
  then have N: "2 \<le> N" unfolding N_def by (simp add: le_ceiling_iff)
  then have p: "0 < N - 1" by simp
  then have b: "1 \<le> bitlen (N - 1)" by (auto simp: bitlen_alt_def)
  have e: "exponent x + 1 = - (bitlen (N - 1) - 1)"
    using False by (simp add: exponent_def N_def)
  from bitlen_bounds [OF p] have "2 ^ nat (bitlen (N - 1) - 1) \<le> N - 1" ..
  then have "(2::real) ^ nat (bitlen (N - 1) - 1) \<le> of_int (N - 1)"
    by (metis of_int_le_iff of_int_numeral of_int_power)
  moreover have "of_int (N - 1) < 1 / \<bar>x\<bar>" unfolding N_def by linarith
  ultimately have "2 ^ nat (bitlen (N - 1) - 1) < 1 / \<bar>x\<bar>" by linarith
  with x(1) have "\<bar>x\<bar> < 1 / 2 ^ nat (bitlen (N - 1) - 1)"
    by (simp add: field_simps)
  moreover have "(2::real) powi (- (bitlen (N - 1) - 1)) = 1 / 2 ^ nat (bitlen (N - 1) - 1)"
    using b by (simp add: power_int_def power_one_over)
  ultimately show ?thesis unfolding e by simp
qed

lemma double_error: "\<bar>double x - x\<bar> \<le> \<bar>x\<bar> / 9007199254740992"
proof (cases "x = 0")
  case True
  then show ?thesis by (simp add: double_def)
next
  case False
  define ulp :: real where "ulp = 2 powi (exponent x - 52)"
  have u: "0 < ulp" by (simp add: ulp_def)
  have d: "double x = of_int (roundEven (x / ulp)) * ulp"
    using False by (simp add: double_def ulp_def Let_def)
  have "double x - x = (of_int (roundEven (x / ulp)) - x / ulp) * ulp"
    using u by (simp add: d field_simps)
  then have "\<bar>double x - x\<bar> = \<bar>of_int (roundEven (x / ulp)) - x / ulp\<bar> * ulp"
    using u by (simp add: abs_mult)
  also have "\<dots> \<le> (1 / 2) * ulp"
    using u roundEven_error [of "x / ulp"] by (intro mult_right_mono) simp_all
  also have "\<dots> = 2 powi exponent x / 9007199254740992"
    by (simp add: ulp_def power_int_diff)
  also have "\<dots> \<le> \<bar>x\<bar> / 9007199254740992"
    using exponent_lower [OF False] by (simp add: divide_right_mono)
  finally show ?thesis .
qed

lemma Math_round_near:
  assumes "\<bar>r - of_int k\<bar> < 15 / 100"
  shows "Math_round r = k"
  unfolding Math_round_def
  by (rule floor_unique) (use assms in linarith)+

lemma Math_round_distance: "\<bar>r - of_int (Math_round r)\<bar> \<le> 1 / 2"
  unfolding Math_round_def by linarith

lemma fitsMultiple_exact:
  assumes "offBoundary iv m"
  shows "fitsMultiple iv m = nearMultiple iv m"
proof -
  define r where "r = iv / m"
  define r' where "r' = double r"
  define c where "c = double (15 / 100)"
  have rr: "\<bar>r' - r\<bar> \<le> \<bar>r\<bar> / 9007199254740992"
    unfolding r'_def by (rule double_error)
  have cc: "\<bar>c - 15 / 100\<bar> \<le> (15 / 100) / 9007199254740992"
    using double_error [of "15 / 100"] by (simp add: c_def)
  have ob: "\<bar>\<bar>r - of_int k\<bar> - 15 / 100\<bar> \<ge> 1 / 1000000000000"
    if "k \<in> set [1, 2, 3, 4]" for k :: int
  proof -
    from assms that have "\<bar>\<bar>r - of_int k\<bar> - 15 / 100\<bar> \<ge> 1 / 10 ^ 12"
      unfolding offBoundary_def list_all_iff r_def by blast
    then show ?thesis by simp
  qed
  have f: "fitsMultiple iv m =
      (\<bar>double (r' - of_int (Math_round r'))\<bar> < c \<and> 1 \<le> Math_round r' \<and> Math_round r' \<le> 4)"
    by (simp add: fitsMultiple_def Let_def r'_def r_def c_def)
  have n: "nearMultiple iv m = (\<exists>k\<in>set [1, 2, 3, 4 :: int]. \<bar>r - of_int k\<bar> < 15 / 100)"
    unfolding nearMultiple_def list_ex_iff r_def ..
  show ?thesis
  proof
    assume "fitsMultiple iv m"
    define k where "k = Math_round r'"
    define d where "d = r' - of_int k"
    from \<open>fitsMultiple iv m\<close> have e: "\<bar>double d\<bar> < c" and b: "1 \<le> k" "k \<le> 4"
      by (simp_all add: f k_def d_def)
    have dd: "\<bar>double d - d\<bar> \<le> \<bar>d\<bar> / 9007199254740992" by (rule double_error)
    have dh: "\<bar>d\<bar> \<le> 1 / 2" unfolding d_def k_def by (rule Math_round_distance)
    from b have kr: "1 \<le> (of_int k :: real)" "(of_int k :: real) \<le> 4" by simp_all
    from dh kr have "\<bar>r'\<bar> \<le> 9 / 2" unfolding d_def by linarith
    with rr have "\<bar>r\<bar> \<le> 5" by linarith
    with rr have "\<bar>r' - r\<bar> \<le> 5 / 9007199254740992" by linarith
    then have re: "\<bar>r' - r\<bar> \<le> 1 / 10000000000000" by simp
    from dd dh have "\<bar>double d - d\<bar> \<le> (1 / 2) / 9007199254740992" by linarith
    then have de: "\<bar>double d - d\<bar> \<le> 1 / 10000000000000" by simp
    from cc have ce: "\<bar>c - 15 / 100\<bar> \<le> 1 / 10000000000000" by simp
    from e de ce have "\<bar>d\<bar> < 15 / 100 + 2 / 10000000000000" by linarith
    with re have "\<bar>r - of_int k\<bar> < 15 / 100 + 3 / 10000000000000" unfolding d_def by linarith
    then have up: "\<bar>r - of_int k\<bar> < 15 / 100 + 1 / 1000000000000" by simp
    from b have ks: "k \<in> set [1, 2, 3, 4]" by auto
    from ob [OF ks] up have "\<bar>r - of_int k\<bar> < 15 / 100" by linarith
    with ks show "nearMultiple iv m" unfolding n by blast
  next
    assume "nearMultiple iv m"
    then obtain k :: int where k: "k \<in> set [1, 2, 3, 4]" "\<bar>r - of_int k\<bar> < 15 / 100"
      unfolding n by blast
    from k(1) have b: "1 \<le> k" "k \<le> 4" by auto
    then have kr: "1 \<le> (of_int k :: real)" "(of_int k :: real) \<le> 4" by simp_all
    from ob [OF k(1)] k(2) have m: "\<bar>r - of_int k\<bar> \<le> 15 / 100 - 1 / 1000000000000"
      by linarith
    from k(2) kr have "\<bar>r\<bar> \<le> 5" by linarith
    with rr have "\<bar>r' - r\<bar> \<le> 5 / 9007199254740992" by linarith
    then have re: "\<bar>r' - r\<bar> \<le> 1 / 10000000000000" by simp
    from m have m': "\<bar>r - of_int k\<bar> \<le> 15 / 100 - 10 / 10000000000000" by simp
    with re have near': "\<bar>r' - of_int k\<bar> \<le> 15 / 100 - 9 / 10000000000000" by linarith
    then have near: "\<bar>r' - of_int k\<bar> < 15 / 100" by simp
    then have mr: "Math_round r' = k" by (rule Math_round_near)
    define d where "d = r' - of_int k"
    have dd: "\<bar>double d - d\<bar> \<le> \<bar>d\<bar> / 9007199254740992" by (rule double_error)
    from near have "\<bar>d\<bar> \<le> 1" unfolding d_def by linarith
    with dd have "\<bar>double d - d\<bar> \<le> 1 / 9007199254740992" by linarith
    then have de: "\<bar>double d - d\<bar> \<le> 1 / 10000000000000" by simp
    from cc have ce: "\<bar>c - 15 / 100\<bar> \<le> 1 / 10000000000000" by simp
    from near' have "\<bar>d\<bar> \<le> 15 / 100 - 9 / 10000000000000" unfolding d_def .
    with de ce have "\<bar>double d\<bar> < c" by linarith
    with b show "fitsMultiple iv m" by (simp add: f mr d_def)
  qed
qed

lemma half_score: "(of_nat n * (5 / 10 :: real) \<le> of_nat k) = (n \<le> 2 * k)"
proof -
  have "(of_nat n * (5 / 10 :: real) \<le> of_nat k) = (real n \<le> real (2 * k))" by auto
  also have "\<dots> = (n \<le> 2 * k)" by (rule of_nat_le_iff)
  finally show ?thesis .
qed

lemma findDominantPeriod_reference:
  assumes "clearOfBoundary C intervals"
  shows "findDominantPeriod C intervals = referenceEstimator upperMedian C intervals"
proof -
  let ?P = "\<lambda>i. MIN_PERIOD_MS C < i \<and> i < 2000"
  define V where "V = filter ?P intervals"
  define A where "A = sort V"
  define k where "k = max 1 (nat \<lceil>of_nat (length V) * (6 / 10 :: real)\<rceil>)"
  define m where "m = take k A ! (length (take k A) div 2)"
  have v: "filter (\<lambda>i. i > MIN_PERIOD_MS C \<and> i < 2000) (sort intervals) = A"
    unfolding A_def V_def by (rule filter_sort)
  have n: "length A = length V" by (simp add: A_def)
  have L: "findDominantPeriod C intervals =
      (if length intervals = 0 then 0
       else if length A = 0 then 0
       else if of_nat (length A) * (5 / 10 :: real)
                 \<le> of_nat (length (filter (\<lambda>iv. fitsMultiple iv m) A))
            then m else A ! (length A div 2))"
    unfolding findDominantPeriod_def Let_def v m_def k_def n ..
  have R: "referenceEstimator upperMedian C intervals =
      (if V = [] then 0
       else if length V \<le> 2 * length (filter (\<lambda>iv. nearMultiple iv m) V)
            then m else A ! (length A div 2))"
    unfolding referenceEstimator_def Let_def upperMedian_def m_def k_def A_def V_def ..
  have t: "trialBase C intervals = m"
    unfolding trialBase_def validIntervals_def Let_def upperMedian_def m_def k_def A_def V_def ..
  have c: "fitsMultiple iv m = nearMultiple iv m" if "iv \<in> set A" for iv
  proof -
    from that have "iv \<in> set (validIntervals C intervals)"
      by (simp add: A_def V_def validIntervals_def)
    with assms have "offBoundary iv m"
      unfolding clearOfBoundary_def list_all_iff t by blast
    then show ?thesis by (rule fitsMultiple_exact)
  qed
  have "filter (\<lambda>iv. fitsMultiple iv m) A = filter (\<lambda>iv. nearMultiple iv m) A"
    by (rule filter_cong [OF refl]) (rule c)
  then have s: "length (filter (\<lambda>iv. fitsMultiple iv m) A)
      = length (filter (\<lambda>iv. nearMultiple iv m) V)"
    unfolding A_def by (simp add: filter_sort)
  show ?thesis
  proof (cases "V = []")
    case True
    then show ?thesis by (simp add: L R n)
  next
    case False
    then have "intervals \<noteq> []" by (auto simp: V_def)
    with False show ?thesis
      by (simp add: L R n s half_score)
  qed
qed


subsection \<open>An onset while IDLE\<close>

text \<open>
  Claim C9. A call \<open>addOnset(t)\<close> made while \<open>state == IDLE\<close> sets \<open>lastOnsetTime = t\<close>
  and increments \<open>onsetCount\<close>, and does nothing else: the tracker it leaves is the
  old one with these two fields updated, so no Update was emitted, no trace record
  was appended, and \<open>state\<close>, \<open>period\<close>, \<open>targetPeriod\<close>, \<open>phase\<close>, \<open>confidence\<close>,
  \<open>calOnsets\<close>, \<open>gridHits\<close>, \<open>gridMisses\<close> and \<open>recentPeriods\<close> are unchanged.
\<close>

theorem addOnset_idle_frame:
  assumes "state s = IDLE"
  shows "addOnset C t s = s\<lparr> lastOnsetTime := t, onsetCount := onsetCount s + 1 \<rparr>
         \<and> updates (addOnset C t s) = updates s
         \<and> trace (addOnset C t s) = trace s"
  using assms by (simp add: addOnset_def)

theorem addOnset_idle_frame_witness:
  "state (createBeatTracker None) = IDLE
   \<and> addOnset CONSTANTS 100 (createBeatTracker None)
       = (createBeatTracker None)\<lparr> lastOnsetTime := 100, onsetCount := 1 \<rparr>
   \<and> updates (addOnset CONSTANTS 100 (createBeatTracker None)) = []
   \<and> trace (addOnset CONSTANTS 100 (createBeatTracker None)) = None"
  using addOnset_idle_frame [of "createBeatTracker None" CONSTANTS 100]
  by (simp add: createBeatTracker_def)

subsection \<open>Null tempo fields of an Update\<close>

text \<open>
  Claim C10. Every Update is built by \<open>emitUpdate\<close>. One built while \<open>period == 0\<close>
  has \<open>currentBpm = null\<close>, one built while \<open>targetPeriod == 0\<close> has
  \<open>targetBpm = null\<close>, and whenever either of the two fields is \<open>null\<close> the \<open>drift\<close>
  field is the number \<open>0\<close>, not \<open>null\<close>.
\<close>

theorem emitUpdate_null_bpm:
  "(period s = 0 \<longrightarrow> currentBpm (emitUpdate_data C s) = None)
   \<and> (targetPeriod s = 0 \<longrightarrow> targetBpm (emitUpdate_data C s) = None)
   \<and> (currentBpm (emitUpdate_data C s) = None \<or> targetBpm (emitUpdate_data C s) = None
        \<longrightarrow> drift (emitUpdate_data C s) = 0)
   \<and> updates (emitUpdate C s) = updates s @ [emitUpdate_data C s]"
  by (simp add: emitUpdate_data_def Let_def)

theorem emitUpdate_null_bpm_witness:
  "period (createBeatTracker None) = 0 \<and> targetPeriod (createBeatTracker None) = 0
   \<and> currentBpm (emitUpdate_data CONSTANTS (createBeatTracker None)) = None
   \<and> targetBpm (emitUpdate_data CONSTANTS (createBeatTracker None)) = None
   \<and> drift (emitUpdate_data CONSTANTS (createBeatTracker None)) = 0"
  using emitUpdate_null_bpm [of "createBeatTracker None" CONSTANTS]
  by (simp add: createBeatTracker_def)

subsection \<open>Runs and their invariants\<close>

lemma run_invariant:
  assumes "P s" and "list_all positiveTarget cs"
    and step: "\<And>c s. P s \<Longrightarrow> positiveTarget c \<Longrightarrow> \<exists>s'. step C c s = Some s' \<and> P s'"
  shows "\<exists>s'. run C cs s = Some s' \<and> P s'"
  using assms(1,2)
proof (induction cs arbitrary: s)
  case Nil
  then show ?case by simp
next
  case (Cons c cs)
  from Cons.prems have "P s" "positiveTarget c" "list_all positiveTarget cs" by simp_all
  from step [OF this(1,2)] obtain s1 where s1: "step C c s = Some s1" "P s1" by blast
  from Cons.IH [OF s1(2) \<open>list_all positiveTarget cs\<close>] s1(1) show ?case by simp
qed

lemma list_all_take: "list_all P xs \<Longrightarrow> list_all P (take n xs)"
  by (auto simp: list_all_iff dest: in_set_takeD)

lemma Math_round_percent: "0 \<le> c \<Longrightarrow> c \<le> 1 \<Longrightarrow> 0 \<le> Math_round (c * 100) \<and> Math_round (c * 100) \<le> 100"
  unfolding Math_round_def by (simp add: le_floor_iff floor_le_iff)

lemma emitUpdate_data_confidence [simp]:
  "u_confidence (emitUpdate_data C s) = Math_round (confidence s * 100)"
  by (simp add: emitUpdate_data_def Let_def)

lemma confidenceBounded_emitUpdate:
  assumes "0 \<le> confidence s" "confidence s \<le> 1"
    "list_all (\<lambda>u. 0 \<le> u_confidence u \<and> u_confidence u \<le> 100) (updates s)"
  shows "confidenceBounded (emitUpdate C s)"
  using assms Math_round_percent [of "confidence s"]
  by (simp add: confidenceBounded_def)

lemma confidenceBounded_reset: "confidenceBounded s \<Longrightarrow> confidenceBounded (reset C s)"
  unfolding reset_def by (rule confidenceBounded_emitUpdate) (simp_all add: confidenceBounded_def)

lemma confidenceBounded_enterWaiting: "confidenceBounded s \<Longrightarrow> confidenceBounded (enterWaiting C s)"
  unfolding enterWaiting_def by (rule confidenceBounded_emitUpdate) (simp_all add: confidenceBounded_def)

lemma confidenceBounded_silenceCheck: "confidenceBounded s \<Longrightarrow> confidenceBounded (silenceCheck C now s)"
  by (simp add: silenceCheck_def Let_def confidenceBounded_enterWaiting)

lemma confidenceBounded_setTarget:
  "confidenceBounded s \<Longrightarrow> bpm \<noteq> 0 \<Longrightarrow> \<exists>s'. setTarget C bpm now s = Some s' \<and> confidenceBounded s'"
proof -
  assume b: "confidenceBounded s" and nz: "bpm \<noteq> 0"
  have "confidenceBounded (emitUpdate C
          (s\<lparr> targetPeriod := 60000 / bpm, period := 60000 / bpm, phase := now,
              confidence := 7 / 10, state := TRACKING,
              calOnsets := replicate (CAL_BEATS C + 1) 0 \<rparr>))"
    using b by (intro confidenceBounded_emitUpdate) (simp_all add: confidenceBounded_def)
  with nz show ?thesis by (simp add: setTarget_def Let_def)
qed

lemma gridHit_confidence:
  assumes "0 \<le> confidence s" "confidence s \<le> 1"
  shows "0 \<le> confidence (gridHit C t s) \<and> confidence (gridHit C t s) \<le> 1"
  using assms by (simp add: gridHit_def Let_def)

lemma gridHit_updates [simp]: "updates (gridHit C t s) = updates s"
  by (simp add: gridHit_def Let_def)

lemma doubleTempoCorrection_confidence:
  assumes "0 \<le> confidence s" "confidence s \<le> 1"
  shows "0 \<le> confidence (doubleTempoCorrection t s) \<and> confidence (doubleTempoCorrection t s) \<le> 1"
  using assms by (simp add: doubleTempoCorrection_def Let_def)

lemma doubleTempoCorrection_updates [simp]: "updates (doubleTempoCorrection t s) = updates s"
  by (simp add: doubleTempoCorrection_def Let_def)

lemma confidenceBounded_trackingPhase:
  assumes "confidenceBounded s"
  shows "confidenceBounded (trackingPhase C t s)"
proof -
  from assms have c: "0 \<le> confidence s" "confidence s \<le> 1"
    and u: "list_all (\<lambda>u. 0 \<le> u_confidence u \<and> u_confidence u \<le> 100) (updates s)"
    by (simp_all add: confidenceBounded_def)
  note g = gridHit_confidence [OF c, of C t]
  from g have d: "0 \<le> confidence (doubleTempoCorrection t (gridHit C t s))
      \<and> confidence (doubleTempoCorrection t (gridHit C t s)) \<le> 1"
    by (intro doubleTempoCorrection_confidence) simp_all
  show ?thesis
    unfolding trackingPhase_def Let_def
    using g d u by (auto intro!: confidenceBounded_emitUpdate split: if_splits)
qed

lemma confidenceBounded_addOnset:
  assumes "confidenceBounded s"
  shows "confidenceBounded (addOnset C t s)"
proof -
  let ?s = "s\<lparr> lastOnsetTime := t, onsetCount := onsetCount s + 1 \<rparr>"
  from assms have b: "confidenceBounded ?s" by (simp add: confidenceBounded_def)
  then have c: "0 \<le> confidence ?s" "confidence ?s \<le> 1"
    and u: "list_all (\<lambda>u. 0 \<le> u_confidence u \<and> u_confidence u \<le> 100) (updates ?s)"
    by (simp_all add: confidenceBounded_def)
  have w: "confidenceBounded (resumeFromWaiting C t ?s)"
    unfolding resumeFromWaiting_def using c u by (intro confidenceBounded_emitUpdate) simp_all
  have k: "confidenceBounded (calibrationPhase C t ?s)"
    unfolding calibrationPhase_def Let_def using c u
    by (auto intro!: confidenceBounded_emitUpdate)
  show ?thesis
    unfolding addOnset_def Let_def
    using b w k confidenceBounded_trackingPhase [OF b] by simp
qed

lemma confidenceBounded_step:
  assumes "confidenceBounded s" "positiveTarget c"
  shows "\<exists>s'. step C c s = Some s' \<and> confidenceBounded s'"
proof (cases c)
  case (SetTarget bpm now)
  with assms show ?thesis by (simp add: confidenceBounded_setTarget)
next
  case StartSilenceWatch
  with assms show ?thesis by (simp add: startSilenceWatch_def confidenceBounded_def)
next
  case StopSilenceWatch
  with assms show ?thesis by (simp add: stopSilenceWatch_def confidenceBounded_def)
next
  case Destroy
  with assms show ?thesis by (simp add: destroy_def stopSilenceWatch_def confidenceBounded_def)
qed (use assms in \<open>simp_all add: confidenceBounded_reset confidenceBounded_addOnset confidenceBounded_silenceCheck\<close>)

lemma confidenceBounded_create: "confidenceBounded (createBeatTracker tr)"
  by (simp add: confidenceBounded_def createBeatTracker_def)

text \<open>
  Claim C4. Start from a new tracker and make any finite sequence of calls (\<open>reset\<close>,
  \<open>addOnset\<close> with any timestamp, \<open>setTarget\<close> with a positive bpm, ticks of the
  silence timer, which force the WAITING transition, and starting or stopping the
  timer). After every prefix of the sequence the run has a result, \<open>confidence\<close> is
  within \<open>[0,1]\<close>, and every Update emitted so far reports a confidence within
  \<open>[0,100]\<close>.
\<close>

theorem confidence_bounds:
  assumes "list_all positiveTarget cs"
  shows "\<exists>s. run C (take n cs) (createBeatTracker tr) = Some s
           \<and> 0 \<le> confidence s \<and> confidence s \<le> 1
           \<and> list_all (\<lambda>u. 0 \<le> u_confidence u \<and> u_confidence u \<le> 100) (updates s)"
proof -
  have "\<exists>s. run C (take n cs) (createBeatTracker tr) = Some s \<and> confidenceBounded s"
    by (rule run_invariant [where P = confidenceBounded,
          OF confidenceBounded_create list_all_take [OF assms]])
       (rule confidenceBounded_step)
  then show ?thesis by (simp add: confidenceBounded_def)
qed

theorem confidence_bounds_witness:
  "list_all positiveTarget [Reset, SetTarget 120 0, AddOnset 500]
   \<and> (\<exists>s. run CONSTANTS (take 3 [Reset, SetTarget 120 0, AddOnset 500]) newTracker = Some s
          \<and> 0 \<le> confidence s \<and> confidence s \<le> 1
          \<and> list_all (\<lambda>u. 0 \<le> u_confidence u \<and> u_confidence u \<le> 100) (updates s))"
  using confidence_bounds [of "[Reset, SetTarget 120 0, AddOnset 500]" CONSTANTS 3
      "Some (createTraceBuffer 10000)"]
  by (simp add: newTracker_def)

subsection \<open>Evaluating the scenarios\<close>

lemmas tracking_defs = trackingPhase_def gridHit_def gridEvent_def doubleTempoApplies_def
  doubleTempoDetected_def doubleTempoCorrection_def timeSincePhase_def beatFraction_def
  nearestBeat_def offset_def absOffset_def Math_round_def

lemma calibrating_step:
  assumes "state s = CALIBRATING" "length (calOnsets s) < CAL_BEATS C"
  shows "state (addOnset C t s) = CALIBRATING" "period (addOnset C t s) = period s"
   "targetPeriod (addOnset C t s) = targetPeriod s" "phase (addOnset C t s) = phase s"
   "confidence (addOnset C t s) = confidence s" "calOnsets (addOnset C t s) = calOnsets s @ [t]"
   "gridHits (addOnset C t s) = gridHits s" "gridMisses (addOnset C t s) = gridMisses s"
   "recentPeriods (addOnset C t s) = recentPeriods s"
   "silenceCheckInterval (addOnset C t s) = silenceCheckInterval s"
  using assms by (simp_all add: addOnset_def calibrationPhase_def Let_def)

lemma steady_estimate:
  "findDominantPeriod CONSTANTS [500, 500, 500, 500, 500, 500, 500, 500] = 500"
  by (simp add: findDominantPeriod_def CONSTANTS_def fitsMultiple_exact offBoundary_def
      nearMultiple_def Let_def)

lemma calibrated_fields:
  "state calibrated = TRACKING" "period calibrated = 500" "targetPeriod calibrated = 500"
  "phase calibrated = 4000" "confidence calibrated = 1 / 2"
  "calOnsets calibrated = steadyOnsets" "gridHits calibrated = 0" "gridMisses calibrated = 0"
  "recentPeriods calibrated = [500]" "lastOnsetTime calibrated = 4000"
  "silenceCheckInterval calibrated = False"
proof -
  define s0 where "s0 = reset CONSTANTS (createBeatTracker (Some (createTraceBuffer 10000)))"
  define s8 where "s8 = feed CONSTANTS [0, 500, 1000, 1500, 2000, 2500, 3000, 3500] s0"
  have f0: "state s0 = CALIBRATING" "period s0 = 0" "targetPeriod s0 = 0" "phase s0 = 0"
    "confidence s0 = 0" "calOnsets s0 = []" "gridHits s0 = 0" "gridMisses s0 = 0"
    "recentPeriods s0 = []" "silenceCheckInterval s0 = False"
    by (simp_all add: s0_def reset_def createBeatTracker_def)
  have f8: "state s8 = CALIBRATING" "period s8 = 0" "targetPeriod s8 = 0" "phase s8 = 0"
    "confidence s8 = 0" "calOnsets s8 = [0, 500, 1000, 1500, 2000, 2500, 3000, 3500]"
    "gridHits s8 = 0" "gridMisses s8 = 0" "recentPeriods s8 = []" "silenceCheckInterval s8 = False"
    by (simp_all add: s8_def feed_def calibrating_step f0 CONSTANTS_def)
  have c: "calibrated = addOnset CONSTANTS 4000 s8"
    by (simp add: calibrated_def runScenario_def steadyOnsets_def feed_def s8_def s0_def)
  have e: "CAL_BEATS CONSTANTS = 8" by (simp add: CONSTANTS_def)
  show "state calibrated = TRACKING" "period calibrated = 500" "targetPeriod calibrated = 500"
  "phase calibrated = 4000" "confidence calibrated = 1 / 2"
  "calOnsets calibrated = steadyOnsets" "gridHits calibrated = 0" "gridMisses calibrated = 0"
  "recentPeriods calibrated = [500]" "lastOnsetTime calibrated = 4000"
  "silenceCheckInterval calibrated = False"
    unfolding c steadyOnsets_def
    by (simp_all add: addOnset_def calibrationPhase_def Let_def f8 e steady_estimate)
qed

lemma nudged_fields:
  "state nudged = TRACKING" "period nudged = 502" "targetPeriod nudged = 50001 / 100"
  "phase nudged = 403053 / 100" "confidence nudged = 11 / 20"
  "gridHits nudged = 1" "gridMisses nudged = 0" "recentPeriods nudged = [500, 525]"
  unfolding nudged_def
  by (simp_all add: addOnset_def tracking_defs Let_def calibrated_fields CONSTANTS_def)


lemma beforeCorrection_fields:
  "state beforeCorrection = TRACKING" "period beforeCorrection = 502"
  "targetPeriod beforeCorrection = 50001 / 100" "phase beforeCorrection = 403053 / 100"
  "confidence beforeCorrection = 43 / 100" "gridHits beforeCorrection = 1"
  "gridMisses beforeCorrection = 6" "recentPeriods beforeCorrection = [500, 525]"
proof -
  define m1 where "m1 = addOnset CONSTANTS (478353 / 100) nudged"
  define m2 where "m2 = addOnset CONSTANTS (528553 / 100) m1"
  define m3 where "m3 = addOnset CONSTANTS (578753 / 100) m2"
  define m4 where "m4 = addOnset CONSTANTS (628953 / 100) m3"
  define m5 where "m5 = addOnset CONSTANTS (679153 / 100) m4"
  define m6 where "m6 = addOnset CONSTANTS (729353 / 100) m5"
  have f1: "state m1 = TRACKING" "period m1 = 502" "targetPeriod m1 = 50001 / 100"
    "phase m1 = 403053 / 100" "confidence m1 = 53 / 100" "gridHits m1 = 1" "gridMisses m1 = 1"
    "recentPeriods m1 = [500, 525]"
    unfolding m1_def
    by (simp_all add: addOnset_def tracking_defs Let_def nudged_fields CONSTANTS_def)
  have f2: "state m2 = TRACKING" "period m2 = 502" "targetPeriod m2 = 50001 / 100"
    "phase m2 = 403053 / 100" "confidence m2 = 51 / 100" "gridHits m2 = 1" "gridMisses m2 = 2"
    "recentPeriods m2 = [500, 525]"
    unfolding m2_def
    by (simp_all add: addOnset_def tracking_defs Let_def f1 CONSTANTS_def)
  have f3: "state m3 = TRACKING" "period m3 = 502" "targetPeriod m3 = 50001 / 100"
    "phase m3 = 403053 / 100" "confidence m3 = 49 / 100" "gridHits m3 = 1" "gridMisses m3 = 3"
    "recentPeriods m3 = [500, 525]"
    unfolding m3_def
    by (simp_all add: addOnset_def tracking_defs Let_def f2 CONSTANTS_def)
  have f4: "state m4 = TRACKING" "period m4 = 502" "targetPeriod m4 = 50001 / 100"
    "phase m4 = 403053 / 100" "confidence m4 = 47 / 100" "gridHits m4 = 1" "gridMisses m4 = 4"
    "recentPeriods m4 = [500, 525]"
    unfolding m4_def
    by (simp_all add: addOnset_def tracking_defs Let_def f3 CONSTANTS_def)
  have f5: "state m5 = TRACKING" "period m5 = 502" "targetPeriod m5 = 50001 / 100"
    "phase m5 = 403053 / 100" "confidence m5 = 45 / 100" "gridHits m5 = 1" "gridMisses m5 = 5"
    "recentPeriods m5 = [500, 525]"
    unfolding m5_def
    by (simp_all add: addOnset_def tracking_defs Let_def f4 CONSTANTS_def)
  have f6: "state m6 = TRACKING" "period m6 = 502" "targetPeriod m6 = 50001 / 100"
    "phase m6 = 403053 / 100" "confidence m6 = 43 / 100" "gridHits m6 = 1" "gridMisses m6 = 6"
    "recentPeriods m6 = [500, 525]"
    unfolding m6_def
    by (simp_all add: addOnset_def tracking_defs Let_def f5 CONSTANTS_def)
  have b: "beforeCorrection = m6"
    by (simp add: beforeCorrection_def halfBeatOnsets_def feed_def m1_def m2_def m3_def m4_def
        m5_def m6_def)
  show "state beforeCorrection = TRACKING" "period beforeCorrection = 502"
  "targetPeriod beforeCorrection = 50001 / 100" "phase beforeCorrection = 403053 / 100"
  "confidence beforeCorrection = 43 / 100" "gridHits beforeCorrection = 1"
  "gridMisses beforeCorrection = 6" "recentPeriods beforeCorrection = [500, 525]"
    unfolding b by (rule f6)+
qed

subsection \<open>The target period during tracking\<close>

text \<open>
  Claim C1 says that an on-grid onset processed while TRACKING, whose handling does
  not trigger the double-tempo correction, leaves \<open>targetPeriod\<close> as it was. The
  on-grid branch of the source moves it (\<open>ADAPT_SLOW\<close>): on the calibrated tracker
  (\<open>targetPeriod = 500\<close>) the onset at 4525 is on the grid, no correction is due, and
  \<open>targetPeriod\<close> becomes \<open>500.01\<close>.
\<close>

theorem target_moves_on_grid:
  "state calibrated = TRACKING
   \<and> absOffset 4525 calibrated < GRID_TOLERANCE CONSTANTS
   \<and> \<not> doubleTempoDetected (absOffset 4525 calibrated) (gridHit CONSTANTS 4525 calibrated)
   \<and> state (addOnset CONSTANTS 4525 calibrated) = TRACKING
   \<and> targetPeriod calibrated = 500
   \<and> targetPeriod (addOnset CONSTANTS 4525 calibrated) = 50001 / 100"
  by (simp add: addOnset_def tracking_defs Let_def calibrated_fields CONSTANTS_def)

theorem target_moves_on_grid_witness:
  "targetPeriod (addOnset CONSTANTS 4525 calibrated) \<noteq> targetPeriod calibrated"
  using target_moves_on_grid by simp

subsection \<open>The double-tempo correction\<close>

text \<open>
  What the tracking phase does to the grid, in general: with a correction due, every
  effect the specification lists happens, except that \<open>targetPeriod\<close> receives the
  halved \<open>period\<close>; with none due, the tracker is as the grid branch left it.
\<close>

lemma trackingPhase_correction:
  assumes "doubleTempoApplies C (absOffset t s) (gridHit C t s)"
  shows "period (trackingPhase C t s) = period (gridHit C t s) / 2"
    "targetPeriod (trackingPhase C t s) = period (gridHit C t s) / 2"
    "recentPeriods (trackingPhase C t s) = map (\<lambda>p. p / 2) (recentPeriods (gridHit C t s))"
    "phase (trackingPhase C t s) = t"
    "gridHits (trackingPhase C t s) = 0"
    "gridMisses (trackingPhase C t s) = 0"
    "confidence (trackingPhase C t s) = max (3 / 10) (confidence (gridHit C t s) - 2 / 10)"
  using assms by (simp_all add: trackingPhase_def doubleTempoCorrection_def Let_def)

lemma trackingPhase_no_correction:
  assumes "\<not> doubleTempoApplies C (absOffset t s) (gridHit C t s)"
  shows "period (trackingPhase C t s) = period (gridHit C t s)"
    "targetPeriod (trackingPhase C t s) = targetPeriod (gridHit C t s)"
    "recentPeriods (trackingPhase C t s) = recentPeriods (gridHit C t s)"
    "phase (trackingPhase C t s) = phase (gridHit C t s)"
    "gridHits (trackingPhase C t s) = gridHits (gridHit C t s)"
    "gridMisses (trackingPhase C t s) = gridMisses (gridHit C t s)"
    "confidence (trackingPhase C t s) = confidence (gridHit C t s)"
  using assms by (simp_all add: trackingPhase_def Let_def)

lemma gridHit_off_grid:
  assumes "\<not> absOffset t s < GRID_TOLERANCE C"
  shows "period (gridHit C t s) = period s" "targetPeriod (gridHit C t s) = targetPeriod s"
    "phase (gridHit C t s) = phase s" "recentPeriods (gridHit C t s) = recentPeriods s"
    "gridHits (gridHit C t s) = gridHits s" "gridMisses (gridHit C t s) = gridMisses s + 1"
    "confidence (gridHit C t s) = max 0 (confidence s - 2 / 100)"
  using assms by (simp_all add: gridHit_def)


text \<open>
  Claim C5 says that the correction halves \<open>period\<close> and \<open>targetPeriod\<close>. The source
  assigns the halved \<open>period\<close> to both. Before the seventh half-beat onset
  \<open>period = 502\<close> and \<open>targetPeriod = 500.01\<close>; the onset is half a beat off the grid,
  the correction is due and the halved period is above \<open>MIN_PERIOD_MS\<close>; afterwards
  \<open>period = 251\<close> and \<open>targetPeriod = 251\<close>, not \<open>250.005\<close>.
\<close>

theorem correction_resets_target:
  "state beforeCorrection = TRACKING
   \<and> absOffset seventhHalfBeat beforeCorrection = 1 / 2
   \<and> doubleTempoApplies CONSTANTS (absOffset seventhHalfBeat beforeCorrection)
        (gridHit CONSTANTS seventhHalfBeat beforeCorrection)
   \<and> period beforeCorrection = 502
   \<and> targetPeriod beforeCorrection = 50001 / 100
   \<and> period (addOnset CONSTANTS seventhHalfBeat beforeCorrection) = 251
   \<and> targetPeriod (addOnset CONSTANTS seventhHalfBeat beforeCorrection) = 251
   \<and> targetPeriod (addOnset CONSTANTS seventhHalfBeat beforeCorrection)
        \<noteq> targetPeriod beforeCorrection / 2"
  by (simp add: addOnset_def tracking_defs Let_def beforeCorrection_fields CONSTANTS_def
      seventhHalfBeat_def)

theorem correction_resets_target_witness:
  "targetPeriod (addOnset CONSTANTS seventhHalfBeat beforeCorrection)
     = period beforeCorrection / 2
   \<and> targetPeriod (addOnset CONSTANTS seventhHalfBeat beforeCorrection)
     \<noteq> targetPeriod beforeCorrection / 2"
  using correction_resets_target by simp

subsection \<open>What the tracking phase leaves alone, and the sign of the period\<close>

lemma gridHit_state [simp]: "state (gridHit C t s) = state s"
  by (simp add: gridHit_def Let_def)

lemma gridHit_calOnsets [simp]: "calOnsets (gridHit C t s) = calOnsets s"
  by (simp add: gridHit_def Let_def)

lemma doubleTempoCorrection_state [simp]: "state (doubleTempoCorrection t s) = state s"
  by (simp add: doubleTempoCorrection_def Let_def)

lemma doubleTempoCorrection_calOnsets [simp]:
  "calOnsets (doubleTempoCorrection t s) = calOnsets s"
  by (simp add: doubleTempoCorrection_def Let_def)

lemma trackingPhase_state [simp]: "state (trackingPhase C t s) = state s"
  by (simp add: trackingPhase_def Let_def split: if_splits)

lemma trackingPhase_calOnsets [simp]: "calOnsets (trackingPhase C t s) = calOnsets s"
  by (simp add: trackingPhase_def Let_def split: if_splits)

lemma adapt_positive:
  fixes p a i :: real
  assumes "0 < p" "0 < i" "0 \<le> a" "a \<le> 1"
  shows "0 < p + a * (i - p)"
proof -
  have e: "p + a * (i - p) = (1 - a) * p + a * i" by (simp add: algebra_simps)
  show ?thesis
  proof (cases "a = 1")
    case True
    with assms e show ?thesis by simp
  next
    case False
    with assms have "0 < (1 - a) * p" "0 \<le> a * i" by simp_all
    with e show ?thesis by linarith
  qed
qed

lemma gridHit_period_positive:
  assumes "0 \<le> MIN_PERIOD_MS C" "0 \<le> ADAPT_FAST C" "ADAPT_FAST C \<le> 1" "0 < period s"
  shows "0 < period (gridHit C t s)"
proof -
  have "0 < period s + ADAPT_FAST C * (i - period s)" if "MIN_PERIOD_MS C < i" for i
    using assms that by (intro adapt_positive) simp_all
  with assms(4) show ?thesis by (simp add: gridHit_def Let_def)
qed

lemma trackingPhase_period_positive:
  assumes "0 \<le> MIN_PERIOD_MS C" "0 \<le> ADAPT_FAST C" "ADAPT_FAST C \<le> 1" "0 < period s"
  shows "0 < period (trackingPhase C t s)"
  using gridHit_period_positive [OF assms, of t] assms(1)
  by (simp add: trackingPhase_def Let_def doubleTempoApplies_def doubleTempoCorrection_def)

lemma trackingHasPeriod_addOnset:
  assumes "0 \<le> MIN_PERIOD_MS C" "0 \<le> ADAPT_FAST C" "ADAPT_FAST C \<le> 1"
    and "trackingHasPeriod s"
  shows "trackingHasPeriod (addOnset C t s)"
proof -
  let ?s = "s\<lparr> lastOnsetTime := t, onsetCount := onsetCount s + 1 \<rparr>"
  have w: "trackingHasPeriod (resumeFromWaiting C t ?s)"
    by (simp add: trackingHasPeriod_def resumeFromWaiting_def)
  have k: "trackingHasPeriod (calibrationPhase C t ?s)" if "state s = CALIBRATING"
    using that by (simp add: trackingHasPeriod_def calibrationPhase_def Let_def)
  have g: "trackingHasPeriod (trackingPhase C t ?s)" if "state s = TRACKING"
    using that assms(4) trackingPhase_period_positive [OF assms(1-3), of ?s t]
    by (simp add: trackingHasPeriod_def)
  show ?thesis
    unfolding addOnset_def Let_def using w k g assms(4)
    by (auto simp: trackingHasPeriod_def)
qed

lemma trackingHasPeriod_step:
  assumes "0 \<le> MIN_PERIOD_MS C" "0 \<le> ADAPT_FAST C" "ADAPT_FAST C \<le> 1"
    and "trackingHasPeriod s" "positiveTarget c"
  shows "\<exists>s'. step C c s = Some s' \<and> trackingHasPeriod s'"
proof (cases c)
  case Reset
  then show ?thesis by (simp add: reset_def trackingHasPeriod_def)
next
  case (AddOnset t)
  then show ?thesis using trackingHasPeriod_addOnset [OF assms(1-4)] by simp
next
  case (SetTarget bpm now)
  with assms(5) show ?thesis by (simp add: setTarget_def Let_def trackingHasPeriod_def)
next
  case StartSilenceWatch
  with assms(4) show ?thesis by (simp add: startSilenceWatch_def trackingHasPeriod_def)
next
  case StopSilenceWatch
  with assms(4) show ?thesis by (simp add: stopSilenceWatch_def trackingHasPeriod_def)
next
  case (SilenceTick now)
  with assms(4) show ?thesis
    by (simp add: silenceCheck_def enterWaiting_def Let_def trackingHasPeriod_def)
next
  case Destroy
  with assms(4) show ?thesis by (simp add: destroy_def stopSilenceWatch_def trackingHasPeriod_def)
qed

subsection \<open>A zero period and the state\<close>

text \<open>
  Claim C7 says that the tracker is never in TRACKING or WAITING with \<open>period == 0\<close>.
  The silence timer forces WAITING from CALIBRATING too, before any period exists:
  after \<open>reset()\<close>, \<open>startSilenceWatch()\<close>, \<open>addOnset(100)\<close> and a tick at 5000 the
  tracker is WAITING with \<open>period = 0\<close>.
\<close>

theorem waiting_with_zero_period:
  "list_all positiveTarget silentCalls
   \<and> map_option state (run CONSTANTS silentCalls newTracker) = Some WAITING
   \<and> map_option period (run CONSTANTS silentCalls newTracker) = Some 0"
  by (simp add: silentCalls_def newTracker_def createBeatTracker_def reset_def
      startSilenceWatch_def addOnset_def calibrationPhase_def silenceCheck_def enterWaiting_def
      CONSTANTS_def Let_def)

text \<open>
  Claim C7, amended. Under constants with \<open>MIN_PERIOD_MS \<ge> 0\<close> and
  \<open>0 \<le> ADAPT_FAST \<le> 1\<close> (the defaults are such), after every prefix of every
  sequence of calls (\<open>setTarget\<close> with a positive bpm): \<open>period == 0\<close> implies that the
  state is IDLE, CALIBRATING or WAITING; the tracker is never in TRACKING with
  \<open>period == 0\<close> (there the period is positive).
\<close>

theorem tracking_has_period:
  assumes "0 \<le> MIN_PERIOD_MS C" "0 \<le> ADAPT_FAST C" "ADAPT_FAST C \<le> 1"
    and "list_all positiveTarget cs"
  shows "\<exists>s. run C (take n cs) (createBeatTracker tr) = Some s
           \<and> (period s = 0 \<longrightarrow> state s = IDLE \<or> state s = CALIBRATING \<or> state s = WAITING)
           \<and> (state s = TRACKING \<longrightarrow> 0 < period s)"
proof -
  have "trackingHasPeriod (createBeatTracker tr)"
    by (simp add: trackingHasPeriod_def createBeatTracker_def)
  then have "\<exists>s. run C (take n cs) (createBeatTracker tr) = Some s \<and> trackingHasPeriod s"
    by (rule run_invariant [where P = trackingHasPeriod, OF _ list_all_take [OF assms(4)]])
       (rule trackingHasPeriod_step [OF assms(1-3)])
  then obtain s where s: "run C (take n cs) (createBeatTracker tr) = Some s"
    "trackingHasPeriod s" by blast
  from s(2) have "period s = 0 \<longrightarrow> state s = IDLE \<or> state s = CALIBRATING \<or> state s = WAITING"
    by (cases "state s") (simp_all add: trackingHasPeriod_def)
  with s show ?thesis by (auto simp: trackingHasPeriod_def)
qed

lemma run_onsets: "run C (map AddOnset ts) s = Some (feed C ts s)"
  by (induction ts arbitrary: s) (simp_all add: feed_def)

lemma run_calibrationCalls: "run CONSTANTS calibrationCalls newTracker = Some calibrated"
  by (simp add: calibrationCalls_def run_onsets calibrated_def runScenario_def newTracker_def)

theorem tracking_has_period_witness:
  "0 \<le> MIN_PERIOD_MS CONSTANTS \<and> 0 \<le> ADAPT_FAST CONSTANTS \<and> ADAPT_FAST CONSTANTS \<le> 1
   \<and> list_all positiveTarget calibrationCalls
   \<and> run CONSTANTS (take 10 calibrationCalls) newTracker = Some calibrated
   \<and> state calibrated = TRACKING \<and> 0 < period calibrated
   \<and> run CONSTANTS (take 1 calibrationCalls) newTracker = Some (reset CONSTANTS newTracker)
   \<and> period (reset CONSTANTS newTracker) = 0
   \<and> state (reset CONSTANTS newTracker) = CALIBRATING"
proof -
  have t: "take 10 calibrationCalls = calibrationCalls"
    by (simp add: calibrationCalls_def steadyOnsets_def)
  have p: "list_all positiveTarget calibrationCalls"
    by (simp add: calibrationCalls_def steadyOnsets_def)
  have c: "0 \<le> MIN_PERIOD_MS CONSTANTS" "0 \<le> ADAPT_FAST CONSTANTS" "ADAPT_FAST CONSTANTS \<le> 1"
    by (simp_all add: CONSTANTS_def)
  from tracking_has_period [OF c p, of 10 "Some (createTraceBuffer 10000)"]
  have "state calibrated = TRACKING \<longrightarrow> 0 < period calibrated"
    by (simp add: t run_calibrationCalls newTracker_def [symmetric])
  then show ?thesis
    using c p by (simp add: t run_calibrationCalls calibrated_fields)
       (simp add: calibrationCalls_def reset_def)
qed


lemma bufferKept_addOnset:
  assumes "bufferKept C s"
  shows "bufferKept C (addOnset C t s)"
proof (cases "state s")
  case IDLE
  with assms show ?thesis by (simp add: addOnset_def bufferKept_def)
next
  case CALIBRATING
  then show ?thesis
    by (simp add: addOnset_def calibrationPhase_def bufferKept_def Let_def)
next
  case TRACKING
  with assms show ?thesis by (simp add: addOnset_def bufferKept_def Let_def)
next
  case WAITING
  then show ?thesis by (simp add: addOnset_def resumeFromWaiting_def bufferKept_def)
qed

lemma bufferKept_step:
  assumes "bufferKept C s" "positiveTarget c"
  shows "\<exists>s'. step C c s = Some s' \<and> bufferKept C s'"
proof (cases c)
  case Reset
  then show ?thesis by (simp add: reset_def bufferKept_def)
next
  case (AddOnset t)
  then show ?thesis using bufferKept_addOnset [OF assms(1)] by simp
next
  case (SetTarget bpm now)
  with assms(2) show ?thesis by (simp add: setTarget_def Let_def bufferKept_def)
next
  case StartSilenceWatch
  with assms(1) show ?thesis by (simp add: startSilenceWatch_def bufferKept_def)
next
  case StopSilenceWatch
  with assms(1) show ?thesis by (simp add: stopSilenceWatch_def bufferKept_def)
next
  case (SilenceTick now)
  with assms(1) show ?thesis
    by (simp add: silenceCheck_def enterWaiting_def Let_def bufferKept_def)
next
  case Destroy
  with assms(1) show ?thesis by (simp add: destroy_def stopSilenceWatch_def bufferKept_def)
qed

subsection \<open>The calibration buffer and the state\<close>

text \<open>
  Claim C8 says that \<open>calOnsets\<close> is empty in every reachable state that is IDLE,
  TRACKING or WAITING. The source never empties it when the calibration completes:
  after \<open>reset()\<close> and the nine steady onsets the tracker is TRACKING and \<open>calOnsets\<close>
  still holds the nine timestamps.
\<close>

theorem buffer_kept_after_calibration:
  "list_all positiveTarget calibrationCalls
   \<and> map_option state (run CONSTANTS calibrationCalls newTracker) = Some TRACKING
   \<and> map_option calOnsets (run CONSTANTS calibrationCalls newTracker)
       = Some [0, 500, 1000, 1500, 2000, 2500, 3000, 3500, 4000]"
  by (simp add: run_calibrationCalls calibrated_fields)
     (simp add: calibrationCalls_def steadyOnsets_def)

text \<open>
  Claim C8, amended. After every prefix of every sequence of calls (\<open>setTarget\<close> with a
  positive bpm): in IDLE \<open>calOnsets\<close> is empty; in TRACKING it is not discarded, it holds
  at least \<open>CAL_BEATS + 1\<close> entries (the calibration onsets, or the zeros that
  \<open>setTarget\<close> writes). Nothing is said of WAITING, which keeps the buffer of the state
  it was entered from.
\<close>

theorem calOnsets_by_state:
  assumes "list_all positiveTarget cs"
  shows "\<exists>s. run C (take n cs) (createBeatTracker tr) = Some s
           \<and> (state s = IDLE \<longrightarrow> calOnsets s = [])
           \<and> (state s = TRACKING \<longrightarrow> CAL_BEATS C + 1 \<le> length (calOnsets s))"
proof -
  have "bufferKept C (createBeatTracker tr)"
    by (simp add: bufferKept_def createBeatTracker_def)
  then have "\<exists>s. run C (take n cs) (createBeatTracker tr) = Some s \<and> bufferKept C s"
    by (rule run_invariant [where P = "bufferKept C", OF _ list_all_take [OF assms]])
       (rule bufferKept_step)
  then show ?thesis by (simp add: bufferKept_def)
qed

theorem calOnsets_by_state_witness:
  "list_all positiveTarget calibrationCalls
   \<and> run CONSTANTS (take 10 calibrationCalls) newTracker = Some calibrated
   \<and> state calibrated = TRACKING
   \<and> CAL_BEATS CONSTANTS + 1 \<le> length (calOnsets calibrated)
   \<and> run CONSTANTS (take 0 calibrationCalls) newTracker = Some newTracker
   \<and> state newTracker = IDLE \<and> calOnsets newTracker = []"
proof -
  have t: "take 10 calibrationCalls = calibrationCalls"
    by (simp add: calibrationCalls_def steadyOnsets_def)
  have p: "list_all positiveTarget calibrationCalls"
    by (simp add: calibrationCalls_def steadyOnsets_def)
  from calOnsets_by_state [OF p, of CONSTANTS 10 "Some (createTraceBuffer 10000)"]
  have "state calibrated = TRACKING \<longrightarrow> CAL_BEATS CONSTANTS + 1 \<le> length (calOnsets calibrated)"
    by (simp add: t run_calibrationCalls newTracker_def [symmetric])
  then show ?thesis
    using p by (simp add: t run_calibrationCalls calibrated_fields)
       (simp add: newTracker_def createBeatTracker_def)
qed

subsection \<open>\<open>setTarget\<close> and its argument\<close>

text \<open>
  Claim C2 says that \<open>setTarget\<close> rejects a non-positive bpm and leaves the tracker
  unchanged. The source has no check: \<open>setTarget(-120)\<close> on a new tracker returns
  normally, with the tracker in TRACKING and \<open>period = targetPeriod = -500\<close>.
\<close>

theorem setTarget_negative_accepted:
  "map_option state (setTarget CONSTANTS (- 120) 0 newTracker) = Some TRACKING
   \<and> map_option period (setTarget CONSTANTS (- 120) 0 newTracker) = Some (- 500)
   \<and> map_option targetPeriod (setTarget CONSTANTS (- 120) 0 newTracker) = Some (- 500)
   \<and> map_option confidence (setTarget CONSTANTS (- 120) 0 newTracker) = Some (7 / 10)
   \<and> state newTracker = IDLE
   \<and> setTarget CONSTANTS (- 120) 0 newTracker \<noteq> Some newTracker"
  by (simp add: setTarget_def newTracker_def createBeatTracker_def Let_def emitUpdate_def)

text \<open>
  Claim C2, amended. \<open>setTarget(bpm)\<close> validates nothing and reports no error: for
  every non-zero bpm, positive or negative, it sets
  \<open>period = targetPeriod = 60000 / bpm\<close>, \<open>confidence = 0.7\<close>, \<open>state = TRACKING\<close> and
  \<open>phase = now\<close>, fills \<open>calOnsets\<close> with \<open>CAL_BEATS + 1\<close> zeros and emits one Update.
\<close>

theorem setTarget_effect:
  assumes "bpm \<noteq> 0"
  shows "\<exists>s'. setTarget C bpm now s = Some s'
           \<and> period s' = 60000 / bpm \<and> targetPeriod s' = 60000 / bpm
           \<and> confidence s' = 7 / 10 \<and> state s' = TRACKING \<and> phase s' = now
           \<and> calOnsets s' = replicate (CAL_BEATS C + 1) 0
           \<and> length (updates s') = length (updates s) + 1"
  using assms by (simp add: setTarget_def Let_def)

theorem setTarget_effect_witness:
  "(- 120 :: real) \<noteq> 0
   \<and> (\<exists>s'. setTarget CONSTANTS (- 120) 7 newTracker = Some s'
           \<and> period s' = - 500 \<and> targetPeriod s' = - 500
           \<and> confidence s' = 7 / 10 \<and> state s' = TRACKING \<and> phase s' = 7
           \<and> calOnsets s' = [0, 0, 0, 0, 0, 0, 0, 0, 0]
           \<and> length (updates s') = 1)"
  using setTarget_effect [of "- 120" CONSTANTS 7 newTracker]
  by (simp add: CONSTANTS_def newTracker_def createBeatTracker_def numeral_eq_Suc)


subsection \<open>The onset after WAITING\<close>

lemma silenced_fields:
  "state silenced = WAITING" "period silenced = 500" "targetPeriod silenced = 500"
  "confidence silenced = 0" "calOnsets silenced = steadyOnsets"
  by (simp_all add: silenced_def silenceCheck_def startSilenceWatch_def enterWaiting_def
      calibrated_fields CONSTANTS_def Let_def)

lemma resumed_fields:
  "state resumed = CALIBRATING" "period resumed = 500" "targetPeriod resumed = 500"
  "calOnsets resumed = [10000]"
  by (simp_all add: resumed_def addOnset_def resumeFromWaiting_def silenced_fields)

text \<open>
  Claim C6 says that the onset after WAITING discards the prior \<open>period\<close> and
  \<open>targetPeriod\<close>. The source keeps both: the calibrated tracker, silenced by the timer,
  is WAITING with \<open>period = targetPeriod = 500\<close>; the onset at 10000 makes it
  CALIBRATING with \<open>calOnsets = [10000]\<close>, and \<open>period\<close> and \<open>targetPeriod\<close> are still
  \<open>500\<close>; the Update it emits reports 120 BPM for both tempos.
\<close>

theorem resume_keeps_period:
  "state silenced = WAITING
   \<and> state (addOnset CONSTANTS 10000 silenced) = CALIBRATING
   \<and> calOnsets (addOnset CONSTANTS 10000 silenced) = [10000]
   \<and> period (addOnset CONSTANTS 10000 silenced) = 500
   \<and> targetPeriod (addOnset CONSTANTS 10000 silenced) = 500
   \<and> currentBpm (last (updates (addOnset CONSTANTS 10000 silenced))) = Some 120
   \<and> targetBpm (last (updates (addOnset CONSTANTS 10000 silenced))) = Some 120"
  by (simp add: addOnset_def resumeFromWaiting_def silenced_fields emitUpdate_data_def Let_def
      round1_def Math_round_def)

text \<open>
  Claim C6, amended. For every onset that arrives while \<open>state == WAITING\<close>, processing
  it transitions the tracker to CALIBRATING with \<open>calOnsets\<close> equal to the one-element
  sequence of that onset's timestamp. The prior \<open>period\<close> and \<open>targetPeriod\<close> are not
  discarded: the onset leaves them unchanged and the Update it emits carries them, and
  every later onset that leaves the tracker CALIBRATING leaves them unchanged as well
  (only a completed calibration overwrites them).
\<close>

theorem resume_from_waiting:
  "(state s = WAITING \<longrightarrow>
      state (addOnset C t s) = CALIBRATING
      \<and> calOnsets (addOnset C t s) = [t]
      \<and> period (addOnset C t s) = period s
      \<and> targetPeriod (addOnset C t s) = targetPeriod s
      \<and> u_period (last (updates (addOnset C t s))) = period s
      \<and> u_targetPeriod (last (updates (addOnset C t s))) = targetPeriod s)
   \<and> (state s = CALIBRATING \<and> state (addOnset C t s) = CALIBRATING \<longrightarrow>
      period (addOnset C t s) = period s
      \<and> targetPeriod (addOnset C t s) = targetPeriod s)"
  by (auto simp: addOnset_def resumeFromWaiting_def calibrationPhase_def emitUpdate_data_def
      Let_def split: if_splits)

theorem resume_from_waiting_witness:
  "state silenced = WAITING
   \<and> state (addOnset CONSTANTS 10000 silenced) = CALIBRATING
   \<and> calOnsets (addOnset CONSTANTS 10000 silenced) = [10000]
   \<and> period (addOnset CONSTANTS 10000 silenced) = 500
   \<and> targetPeriod (addOnset CONSTANTS 10000 silenced) = 500
   \<and> u_period (last (updates (addOnset CONSTANTS 10000 silenced))) = 500
   \<and> u_targetPeriod (last (updates (addOnset CONSTANTS 10000 silenced))) = 500
   \<and> state resumed = CALIBRATING
   \<and> state (addOnset CONSTANTS 10500 resumed) = CALIBRATING
   \<and> period (addOnset CONSTANTS 10500 resumed) = 500
   \<and> targetPeriod (addOnset CONSTANTS 10500 resumed) = 500"
proof -
  have k: "state (addOnset CONSTANTS 10500 resumed) = CALIBRATING"
    by (simp add: addOnset_def calibrationPhase_def resumed_fields CONSTANTS_def Let_def)
  show ?thesis
    using resume_from_waiting [of silenced CONSTANTS 10000]
      resume_from_waiting [of resumed CONSTANTS 10500] k
    by (simp add: silenced_fields resumed_fields)
qed

subsection \<open>The dominant period estimator and its reference\<close>

lemma missed_beat_estimate:
  "findDominantPeriod CONSTANTS [500, 500, 500, 1000, 500, 500] = 500"
  by (simp add: findDominantPeriod_def CONSTANTS_def fitsMultiple_exact offBoundary_def
      nearMultiple_def Let_def)

lemma missed_beat_clear: "clearOfBoundary CONSTANTS [500, 500, 500, 1000, 500, 500]"
  by (simp add: clearOfBoundary_def trialBase_def validIntervals_def upperMedian_def
      offBoundary_def CONSTANTS_def Let_def)

lemma uneven_estimate: "findDominantPeriod CONSTANTS unevenIntervals = 500"
  by (simp add: unevenIntervals_def findDominantPeriod_def CONSTANTS_def fitsMultiple_exact
      offBoundary_def nearMultiple_def Let_def)

lemma uneven_reference: "referenceEstimator meanMedian CONSTANTS unevenIntervals = 455"
  by (simp add: unevenIntervals_def referenceEstimator_def CONSTANTS_def nearMultiple_def
      meanMedian_def Let_def)

lemma boundary_fit: "fitsMultiple 460 400"
  by code_simp

lemma boundary_estimate: "findDominantPeriod CONSTANTS boundaryIntervals = 400"
  by (simp add: boundaryIntervals_def findDominantPeriod_def CONSTANTS_def boundary_fit
      fitsMultiple_exact offBoundary_def nearMultiple_def Let_def)

lemma boundary_reference: "referenceEstimator upperMedian CONSTANTS boundaryIntervals = 460"
  by (simp add: boundaryIntervals_def referenceEstimator_def CONSTANTS_def nearMultiple_def
      upperMedian_def Let_def)


text \<open>
  Claim C3 says that the estimator equals the reference algorithm, whose trial base
  and fallback are medians and whose fit test has a tolerance of 15 percent. It does
  not, in two ways. With the median of statistics (the mean of the two middle
  elements of an even count): on the eight intervals of \<open>unevenIntervals\<close> fewer than
  half fit the trial base 400, the fallback is the median of all eight, and the
  source returns the element at index 4, which is 500, where the median is
  \<open>(410 + 500) / 2 = 455\<close>. With the median at index \<open>\<lfloor>n / 2\<rfloor>\<close>, at the 15 percent bound:
  on \<open>boundaryIntervals\<close> the trial base is 400 and the error of \<open>460 / 400\<close> is \<open>0.15\<close>,
  which is not under the tolerance, so the reference counts three fits of eight and
  falls back to 460; the double quotient is below \<open>1.15\<close> and its error below the
  double \<open>0.15\<close>, so the source counts eight fits and returns 400.
\<close>

theorem estimator_median_differs:
  "findDominantPeriod CONSTANTS unevenIntervals = 500
   \<and> referenceEstimator meanMedian CONSTANTS unevenIntervals = 455
   \<and> findDominantPeriod CONSTANTS boundaryIntervals = 400
   \<and> referenceEstimator upperMedian CONSTANTS boundaryIntervals = 460"
  by (simp add: uneven_estimate uneven_reference boundary_estimate boundary_reference)

text \<open>
  Claim C3, amended. On every input that stays clear of the 15 percent bound (for
  every valid interval, the distance of its ratio to the trial base from each integer
  in \<open>[1,4]\<close> differs from \<open>0.15\<close> by at least \<open>10\<^sup>-\<^sup>1\<^sup>2\<close>), the estimator equals the
  reference algorithm in which the median of an ascending sequence of \<open>n\<close> elements is
  its element at index \<open>\<lfloor>n / 2\<rfloor>\<close> (the upper of the two middle elements when \<open>n\<close> is
  even): discard the intervals outside \<open>(MIN_PERIOD_MS, 2000)\<close>; return 0 if none
  remain; sort ascending and take the lower 60 percent (rounded up, at least one
  element) as candidates; that median of the candidates is the trial base period; an
  interval fits when its ratio to the trial base is within 0.15 of an integer in
  \<open>[1,4]\<close>; return the trial base if at least half of the valid intervals fit,
  otherwise that median of all valid intervals. On \<open>[500,500,500,1000,500,500]\<close> it
  returns 500. At the bound itself the rounding of the double quotient decides, and
  nothing is said.
\<close>

theorem estimator_is_reference:
  assumes "clearOfBoundary C intervals"
  shows "findDominantPeriod C intervals = referenceEstimator upperMedian C intervals
   \<and> findDominantPeriod CONSTANTS [500, 500, 500, 1000, 500, 500] = 500"
  by (rule conjI [OF findDominantPeriod_reference [OF assms] missed_beat_estimate])

theorem estimator_is_reference_witness:
  "clearOfBoundary CONSTANTS [500, 500, 500, 1000, 500, 500]
   \<and> findDominantPeriod CONSTANTS [500, 500, 500, 1000, 500, 500] = 500
   \<and> referenceEstimator upperMedian CONSTANTS [500, 500, 500, 1000, 500, 500] = 500"
  using estimator_is_reference [OF missed_beat_clear] missed_beat_clear by simp

end
